theory Spec2Isabelle
  imports Main "HOL-Library.AList"
begin

section \<open>Values shared by the models\<close>

text \<open>
  JSON values as the request payloads and response bodies carry them. A JavaScript object
  is the list of its own enumerable properties in enumeration order. Strings are byte
  strings (the UTF-8 encoding of the JavaScript string), numbers are integers.
\<close>

datatype json =
    JNull
  | JBool bool
  | JNum int
  | JStr string
  | JArr "json list"
  | JObj "(string \<times> json) list"

text \<open>What JavaScript takes for true in a condition.\<close>

fun truthy :: "json \<Rightarrow> bool" where
  "truthy JNull = False"
| "truthy (JBool b) = b"
| "truthy (JNum n) = (n \<noteq> 0)"
| "truthy (JStr s) = (s \<noteq> [])"
| "truthy v = True"

text \<open>
  Exceptions are values: a function that can throw returns \<open>js_error + 'a\<close>, with
  \<open>Inl\<close> for the exception.
\<close>

datatype js_error = RangeError | TypeError | CryptoError string

text \<open>\<open>String.prototype.toLowerCase\<close> on the ASCII letters.\<close>

definition toLowerChar :: "char \<Rightarrow> char" where
  "toLowerChar c =
     (case map_of (zip ''ABCDEFGHIJKLMNOPQRSTUVWXYZ'' ''abcdefghijklmnopqrstuvwxyz'') c of
        None \<Rightarrow> c | Some l \<Rightarrow> l)"

definition toLowerCase :: "string \<Rightarrow> string" where
  "toLowerCase s = map toLowerChar s"

fun startsWith :: "string \<Rightarrow> string \<Rightarrow> bool" where
  "startsWith s [] = True"
| "startsWith [] (c # cs) = False"
| "startsWith (x # xs) (c # cs) = (x = c \<and> startsWith xs cs)"

fun includes_str :: "string \<Rightarrow> string \<Rightarrow> bool" where
  "includes_str [] sub = (sub = [])"
| "includes_str (x # xs) sub = (startsWith (x # xs) sub \<or> includes_str xs sub)"

section \<open>Server: requests, responses and the terminal error handler (the application setup)\<close>

text \<open>
  The fields of the Express request and of \<open>CustomError\<close> that the handlers read.
  \<open>req.id\<close> is declared \<open>id?: string\<close>; an optional field is an \<open>option\<close>.
  \<open>errors\<close> is declared \<open>any\<close>: it is any JSON value, or missing. The status
  codes are integers.
\<close>

record Request =
  req_id :: "string option"
  req_method :: string
  originalUrl :: string
  userAgent :: "string option"
  contentType :: "string option"

record CustomError =
  name :: string
  message :: string
  stack :: "string option"
  statusCode :: "int option"
  status :: "int option"
  type :: "string option"
  errors :: "json option"

record Response =
  res_status :: int
  res_json :: "(string \<times> json) list"

text \<open>
  \<open>res.status(code).json(obj)\<close>: \<open>JSON.stringify\<close> leaves out a property whose value is
  \<open>undefined\<close>, so the body holds the defined properties only.
\<close>

definition jsonBody :: "(string \<times> json option) list \<Rightarrow> (string \<times> json) list" where
  "jsonBody props = List.map_filter (\<lambda>(k, v). map_option (\<lambda>j. (k, j)) v) props"

definition respond :: "int \<Rightarrow> (string \<times> json option) list \<Rightarrow> Response" where
  "respond code props = \<lparr>res_status = code, res_json = jsonBody props\<rparr>"

text \<open>\<open>a || b\<close> on strings and on optional numbers: the empty string and 0 are falsy.\<close>

definition orStr :: "string \<Rightarrow> string \<Rightarrow> string" where
  "orStr a b = (if a = [] then b else a)"

definition orNum :: "int option \<Rightarrow> int \<Rightarrow> int" where
  "orNum a b = (case a of None \<Rightarrow> b | Some k \<Rightarrow> if k = 0 then b else k)"

text \<open>
  \<open>Object.values(err.errors || {})\<close>: the property values of an object, the elements
  of an array, the characters of a string, nothing for a number or a boolean, and
  nothing when \<open>errors\<close> is missing or falsy.
\<close>

definition objectValues :: "json \<Rightarrow> json list" where
  "objectValues v =
     (case v of
        JObj props \<Rightarrow> map snd props
      | JArr items \<Rightarrow> items
      | JStr s \<Rightarrow> map (\<lambda>c. JStr [c]) s
      | _ \<Rightarrow> [])"

definition errorEntries :: "json option \<Rightarrow> json list" where
  "errorEntries es =
     (case es of None \<Rightarrow> [] | Some v \<Rightarrow> if truthy v then objectValues v else [])"

text \<open>
  \<open>e.message\<close> for an entry that is not \<open>null\<close>: the property of an object, and
  \<open>undefined\<close> for an object without it and for every other value. In the array that
  \<open>JSON.stringify\<close> writes, \<open>undefined\<close> is \<open>null\<close>.
\<close>

definition messageOf :: "json \<Rightarrow> json" where
  "messageOf e =
     (case e of
        JObj props \<Rightarrow> (case map_of props ''message'' of None \<Rightarrow> JNull | Some m \<Rightarrow> m)
      | _ \<Rightarrow> JNull)"

text \<open>
  \<open>Object.values(err.errors || {}).map((e: any) => e.message)\<close>: reading \<open>message\<close>
  of an entry that is \<open>null\<close> throws a \<open>TypeError\<close>.
\<close>

definition errorMessages :: "json option \<Rightarrow> js_error + json list" where
  "errorMessages es =
     (if JNull \<in> set (errorEntries es) then Inl TypeError
      else Inr (map messageOf (errorEntries es)))"

text \<open>
  The status codes that Node accepts when the response is written; for any other,
  \<open>res.status(code).json(...)\<close> throws a \<open>RangeError\<close>.
\<close>

definition validStatusCode :: "int \<Rightarrow> bool" where
  "validStatusCode code = (100 \<le> code \<and> code \<le> 999)"

text \<open>
  The global error handler of the Express application setup, branch by branch in the
  order of the source; \<open>env\<close> is \<open>config.env\<close>. The handler has no \<open>try\<close>: where
  building or sending the answer throws, the result is the exception (\<open>Inl\<close>), the
  handler has sent no JSON body, and Express answers in its place with its own error
  page. The model is of the handler called for a response that has not been started
  (\<open>res.headersSent\<close> is false).
\<close>

definition errorHandler :: "string \<Rightarrow> CustomError \<Rightarrow> Request \<Rightarrow> js_error + Response" where
  "errorHandler env err req =
    (if message err = ''Not allowed by CORS'' then
       Inr (respond 403 [(''success'', Some (JBool False)),
                         (''message'', Some (JStr ''CORS policy: Access denied'')),
                         (''requestId'', map_option JStr (req_id req))])
     else if status err = Some 429 then
       Inr (respond 429 [(''success'', Some (JBool False)),
                         (''message'', Some (JStr (orStr (message err) ''Too many requests''))),
                         (''requestId'', map_option JStr (req_id req))])
     else if name err = ''ValidationError'' then
       (case errorMessages (errors err) of
          Inl e \<Rightarrow> Inl e
        | Inr messages \<Rightarrow>
            Inr (respond 400 [(''success'', Some (JBool False)),
                              (''message'', Some (JStr ''Validation failed'')),
                              (''errors'', Some (JArr messages)),
                              (''requestId'', map_option JStr (req_id req))]))
     else if name err = ''JsonWebTokenError'' then
       Inr (respond 401 [(''success'', Some (JBool False)),
                         (''message'', Some (JStr ''Invalid token'')),
                         (''requestId'', map_option JStr (req_id req))])
     else if name err = ''TokenExpiredError'' then
       Inr (respond 401 [(''success'', Some (JBool False)),
                         (''message'', Some (JStr ''Token expired'')),
                         (''requestId'', map_option JStr (req_id req))])
     else if type err = Some ''entity.too.large'' then
       Inr (respond 413 [(''success'', Some (JBool False)),
                         (''message'', Some (JStr ''Request payload too large'')),
                         (''requestId'', map_option JStr (req_id req))])
     else
       (let code = orNum (statusCode err) (orNum (status err) 500) in
        if \<not> validStatusCode code then Inl RangeError
        else
          Inr (respond code
            ([(''success'', Some (JBool False)),
              (''message'', Some (JStr (if env = ''production'' then ''Internal server error''
                                        else orStr (message err) ''Something went wrong''))),
              (''requestId'', map_option JStr (req_id req))]
             @ (if env = ''development'' then [(''stack'', map_option JStr (stack err))]
                else [])))))"

section \<open>Client-side rate limiter (Frontend/src/utils/security.ts, class RateLimiter)\<close>

text \<open>
  The class keeps \<open>maxRequests\<close>, \<open>timeWindow\<close> and a \<open>Map<string, number[]>\<close> from
  identifiers to the timestamps of their accepted requests. \<open>Date.now()\<close> is an input of
  the model: every call of \<open>isAllowed\<close> receives the clock value it reads.
\<close>

record RateLimiter =
  maxRequests :: int
  timeWindow :: int
  requests :: "string \<rightharpoonup> int list"

definition newRateLimiter :: "int \<Rightarrow> int \<Rightarrow> RateLimiter" where
  "newRateLimiter m w = \<lparr>maxRequests = m, timeWindow = w, requests = Map.empty\<rparr>"

text \<open>\<open>this.requests.get(identifier) || []\<close>\<close>

definition userRequests :: "RateLimiter \<Rightarrow> string \<Rightarrow> int list" where
  "userRequests rl identifier = (case requests rl identifier of None \<Rightarrow> [] | Some ts \<Rightarrow> ts)"

text \<open>\<open>userRequests.filter(timestamp => now - timestamp < this.timeWindow)\<close>\<close>

definition recentRequests :: "int \<Rightarrow> RateLimiter \<Rightarrow> string \<Rightarrow> int list" where
  "recentRequests now rl identifier =
     filter (\<lambda>timestamp. now - timestamp < timeWindow rl) (userRequests rl identifier)"

text \<open>
  \<open>isAllowed\<close> returns the answer and the limiter after the call. The early
  \<open>return false\<close> leaves the map untouched; only the accepting path stores the filtered
  list with \<open>now\<close> pushed at its end.
\<close>

definition isAllowed :: "int \<Rightarrow> string \<Rightarrow> RateLimiter \<Rightarrow> bool \<times> RateLimiter" where
  "isAllowed now identifier rl =
     (let recent = recentRequests now rl identifier in
      if int (length recent) \<ge> maxRequests rl then (False, rl)
      else (True, rl\<lparr>requests := (requests rl)(identifier \<mapsto> recent @ [now])\<rparr>))"

text \<open>A sequence of calls, each with the clock value it sees; the answers in order.\<close>

fun isAllowed_calls :: "(int \<times> string) list \<Rightarrow> RateLimiter \<Rightarrow> bool list \<times> RateLimiter" where
  "isAllowed_calls [] rl = ([], rl)"
| "isAllowed_calls ((now, identifier) # cs) rl =
     (case isAllowed now identifier rl of
        (ok, rl') \<Rightarrow> (case isAllowed_calls cs rl' of (oks, rl'') \<Rightarrow> (ok # oks, rl'')))"

text \<open>
  The operation as the specification words it, for comparison with the code: the
  identifier's record first loses the timestamps older than \<open>now - windowDurationMs\<close>,
  whatever the answer; then the call is allowed, and \<open>now\<close> appended, exactly when
  fewer than \<open>maxRequests\<close> remain.
\<close>

definition isAllowed_spec :: "int \<Rightarrow> string \<Rightarrow> RateLimiter \<Rightarrow> bool \<times> RateLimiter" where
  "isAllowed_spec now identifier rl =
     (let remaining = filter (\<lambda>t. \<not> t < now - timeWindow rl) (userRequests rl identifier);
          evicted = rl\<lparr>requests := (requests rl)(identifier \<mapsto> remaining)\<rparr>
      in if int (length remaining) < maxRequests rl
         then (True, evicted\<lparr>requests := (requests evicted)(identifier \<mapsto> remaining @ [now])\<rparr>)
         else (False, evicted))"

fun isAllowed_spec_calls :: "(int \<times> string) list \<Rightarrow> RateLimiter \<Rightarrow> bool list \<times> RateLimiter" where
  "isAllowed_spec_calls [] rl = ([], rl)"
| "isAllowed_spec_calls ((now, identifier) # cs) rl =
     (case isAllowed_spec now identifier rl of
        (ok, rl') \<Rightarrow> (case isAllowed_spec_calls cs rl' of (oks, rl'') \<Rightarrow> (ok # oks, rl'')))"

text \<open>
  The operation with the boundary moved by one: the record loses the timestamps that
  are \<open>now - windowDurationMs\<close> or older, so that a timestamp of exactly that value
  goes as well; the rest is as above.
\<close>

definition isAllowed_amended :: "int \<Rightarrow> string \<Rightarrow> RateLimiter \<Rightarrow> bool \<times> RateLimiter" where
  "isAllowed_amended now identifier rl =
     (let remaining = filter (\<lambda>t. \<not> t \<le> now - timeWindow rl) (userRequests rl identifier);
          evicted = rl\<lparr>requests := (requests rl)(identifier \<mapsto> remaining)\<rparr>
      in if int (length remaining) < maxRequests rl
         then (True, evicted\<lparr>requests := (requests evicted)(identifier \<mapsto> remaining @ [now])\<rparr>)
         else (False, evicted))"

fun isAllowed_amended_calls ::
    "(int \<times> string) list \<Rightarrow> RateLimiter \<Rightarrow> bool list \<times> RateLimiter" where
  "isAllowed_amended_calls [] rl = ([], rl)"
| "isAllowed_amended_calls ((now, identifier) # cs) rl =
     (case isAllowed_amended now identifier rl of
        (ok, rl') \<Rightarrow> (case isAllowed_amended_calls cs rl' of (oks, rl'') \<Rightarrow> (ok # oks, rl'')))"

text \<open>
  Every record the limiter stores holds at most \<open>maxRequests\<close> timestamps (none when
  \<open>maxRequests\<close> is not positive): an accepted call stores fewer than \<open>maxRequests\<close>
  retained timestamps and one new one.
\<close>

definition within_limit :: "RateLimiter \<Rightarrow> bool" where
  "within_limit rl = (\<forall>identifier. int (length (userRequests rl identifier)) \<le> max 0 (maxRequests rl))"

definition same_records :: "RateLimiter \<Rightarrow> RateLimiter \<Rightarrow> bool" where
  "same_records rl rl' =
     (maxRequests rl = maxRequests rl' \<and> timeWindow rl = timeWindow rl'
      \<and> (\<forall>identifier. userRequests rl identifier = userRequests rl' identifier))"

section \<open>Server: middlewares that answer by themselves (middlewares/apiSecurity.ts)\<close>

text \<open>
  A middleware calls \<open>next()\<close>, or ends the chain with a response of its own, or hands
  a failure to the error handler with \<open>next(err)\<close>.
\<close>

datatype outcome = Next | Respond Response | Fail CustomError

text \<open>
  \<open>validateUserAgent\<close>: \<open>!userAgent\<close> holds for a missing header and for an empty one.
\<close>

definition maliciousAgents :: "string list" where
  "maliciousAgents = [''sqlmap'', ''nikto'', ''nmap'', ''masscan'']"

definition validateUserAgent :: "Request \<Rightarrow> outcome" where
  "validateUserAgent req =
    (case userAgent req of
       None \<Rightarrow>
         Respond (respond 400 [(''success'', Some (JBool False)),
                               (''message'', Some (JStr ''User-Agent header is required'')),
                               (''requestId'', map_option JStr (req_id req))])
     | Some ua \<Rightarrow>
         if ua = [] then
           Respond (respond 400 [(''success'', Some (JBool False)),
                                 (''message'', Some (JStr ''User-Agent header is required'')),
                                 (''requestId'', map_option JStr (req_id req))])
         else if list_ex (\<lambda>agent. includes_str (toLowerCase ua) agent) maliciousAgents then
           Respond (respond 403 [(''success'', Some (JBool False)),
                                 (''message'', Some (JStr ''Access denied''))])
         else Next)"

text \<open>\<open>allowedTypes.join(', ')\<close>\<close>

fun join :: "string list \<Rightarrow> string \<Rightarrow> string" where
  "join [] sep = []"
| "join [x] sep = x"
| "join (x # y # ys) sep = x @ sep @ join (y # ys) sep"

definition validateContentType :: "string list \<Rightarrow> Request \<Rightarrow> outcome" where
  "validateContentType allowedTypes req =
    (if req_method req = ''GET'' then Next
     else case contentType req of
       None \<Rightarrow>
         Respond (respond 400 [(''success'', Some (JBool False)),
                               (''message'', Some (JStr ''Content-Type header is required'')),
                               (''requestId'', map_option JStr (req_id req))])
     | Some ct \<Rightarrow>
         if ct = [] then
           Respond (respond 400 [(''success'', Some (JBool False)),
                                 (''message'', Some (JStr ''Content-Type header is required'')),
                                 (''requestId'', map_option JStr (req_id req))])
         else if \<not> list_ex (\<lambda>t. includes_str (toLowerCase ct) (toLowerCase t)) allowedTypes then
           Respond (respond 415 [(''success'', Some (JBool False)),
                                 (''message'', Some (JStr (''Unsupported Content-Type. Allowed: ''
                                                           @ join allowedTypes '', ''))),
                                 (''requestId'', map_option JStr (req_id req))])
         else Next)"

text \<open>The 404 handler of the application setup.\<close>

definition notFoundHandler :: "Request \<Rightarrow> Response" where
  "notFoundHandler req =
     respond 404 [(''success'', Some (JBool False)),
                  (''message'', Some (JStr (''Route '' @ req_method req @ '' '' @ originalUrl req
                                            @ '' not found''))),
                  (''requestId'', map_option JStr (req_id req))]"

section \<open>Server: the middleware chain of the application setup\<close>

text \<open>
  Every \<open>app.use\<close> pushes a layer on the application's stack: the middleware and the
  path it is mounted on (none for a middleware mounted on every path). The names are
  those of the source; \<open>Cors\<close> is \<open>cors(security.corsOptions)\<close>, \<open>Morgan\<close> is
  \<open>morgan('dev')\<close>.
\<close>

datatype middleware =
    RequestIdMiddleware | SecurityHeaders | Cors | RequestLogger | Morgan
  | GeneralLimiter | ExpressJson | ExpressUrlencoded | CookieParser
  | MongoSanitizeConfig | HppConfig | SanitizeInput | DetectSuspiciousActivity
  | ValidateUserAgent | ValidateContentType | CompressionConfig

type_synonym layer = "string option \<times> middleware"

definition use :: "string option \<Rightarrow> middleware \<Rightarrow> layer list \<Rightarrow> layer list" where
  "use mount m app = app @ [(mount, m)]"

text \<open>Lines 20 to 50 of the application setup, statement by statement; \<open>env\<close> is \<open>config.env\<close>.\<close>

definition app_chain :: "string \<Rightarrow> layer list" where
  "app_chain env =
    (let app = [];
         app = use None RequestIdMiddleware app;
         app = use None SecurityHeaders app;
         app = use None Cors app;
         app = use None RequestLogger app;
         app = (if env = ''development'' then use None Morgan app else app);
         app = use (Some ''/api/'') GeneralLimiter app;
         app = use None ExpressJson app;
         app = use None ExpressUrlencoded app;
         app = use None CookieParser app;
         app = use None MongoSanitizeConfig app;
         app = use None HppConfig app;
         app = use None SanitizeInput app;
         app = use None DetectSuspiciousActivity app;
         app = use None ValidateUserAgent app;
         app = use None ValidateContentType app;
         app = use None CompressionConfig app
     in app)"

text \<open>
  The middlewares that apply to a request, in the order in which Express calls them:
  the layers in the order of registration, a mounted layer only when the request path
  lies under its mount path. How Express compares a path with a mount path is the parameter \<open>mounted\<close>.
\<close>

definition stagesFor :: "(string \<Rightarrow> string \<Rightarrow> bool) \<Rightarrow> string \<Rightarrow> string \<Rightarrow> middleware list" where
  "stagesFor mounted env path =
     map snd (filter (\<lambda>(mount, m). case mount of None \<Rightarrow> True | Some p \<Rightarrow> mounted p path)
                     (app_chain env))"

text \<open>
  Express calls the middlewares of a request one after the other, each when its
  predecessor has called \<open>next()\<close>; the first that answers or fails ends the run.
  \<open>behave m\<close> is what the middleware \<open>m\<close> does with the request at hand. The result
  is the list of the middlewares that ran and the outcome of the last.
\<close>

fun runChain :: "(middleware \<Rightarrow> outcome) \<Rightarrow> middleware list \<Rightarrow> middleware list \<times> outcome" where
  "runChain behave [] = ([], Next)"
| "runChain behave (m # ms) =
     (case behave m of
        Next \<Rightarrow> (case runChain behave ms of (called, out) \<Rightarrow> (m # called, out))
      | Respond res \<Rightarrow> ([m], Respond res)
      | Fail err \<Rightarrow> ([m], Fail err))"

text \<open>
  The chain as the specification lists it, in the names of the source: request-id
  tagging, header hardening, CORS decision, rate limiting on API-prefixed paths, body
  parsing with size limits, input sanitization, anomaly detection, content-type gating,
  response compression.
\<close>

definition spec_chain :: "bool \<Rightarrow> middleware list" where
  "spec_chain apiPrefixed =
     [RequestIdMiddleware, SecurityHeaders, Cors]
     @ (if apiPrefixed then [GeneralLimiter] else [])
     @ [ExpressJson, SanitizeInput, DetectSuspiciousActivity, ValidateContentType,
        CompressionConfig]"

text \<open>The middlewares that the specification's list names.\<close>

definition listed :: "middleware \<Rightarrow> bool" where
  "listed m = (m \<in> set (spec_chain True))"


text \<open>A property of a response body, by its name.\<close>

definition field :: "Response \<Rightarrow> string \<Rightarrow> json option" where
  "field res k = map_of (res_json res) k"


definition exampleRequest :: Request where
  "exampleRequest =
     \<lparr>req_id = Some ''7f3c'', req_method = ''POST'', originalUrl = ''/api/auth/login'',
      userAgent = Some ''Mozilla/5.0'', contentType = Some ''application/json''\<rparr>"

section \<open>Server: SecretsManager (hash, verifyHash, sign, verifySignature)\<close>

text \<open>
  \<open>try { body } catch (error) { handler }\<close>, where \<open>body\<close> is the outcome of the
  guarded block.
\<close>

definition try_catch :: "js_error + 'a \<Rightarrow> (js_error \<Rightarrow> js_error + 'a) \<Rightarrow> js_error + 'a" where
  "try_catch body handler = (case body of Inl e \<Rightarrow> handler e | Inr v \<Rightarrow> Inr v)"

text \<open>
  The primitives of Node's \<open>crypto\<close> module are parameters of the model:
  \<open>pbkdf2Sync data salt iterations keylen digest\<close> stands for
  \<open>crypto.pbkdf2Sync(...).toString('hex')\<close>, \<open>createHmac algorithm secret payload\<close> for
  \<open>crypto.createHmac(algorithm, secret).update(payload).digest('hex')\<close>, and
  \<open>stringify\<close> for \<open>JSON.stringify\<close>. A salt that the code draws with
  \<open>crypto.randomBytes(16).toString('hex')\<close> is the argument \<open>randomSalt\<close> of the call
  that draws it.

  \<open>crypto.timingSafeEqual\<close> is modelled by its documented contract: it throws a
  \<open>RangeError\<close> when its two buffers differ in byte length, and otherwise tells whether
  they hold the same bytes. \<open>Buffer.from(s)\<close> is the UTF-8 encoding of \<open>s\<close>, which a
  byte string of the model is already.
\<close>

type_synonym pbkdf2 = "string \<Rightarrow> string \<Rightarrow> nat \<Rightarrow> nat \<Rightarrow> string \<Rightarrow> string"
type_synonym hmac = "string \<Rightarrow> string \<Rightarrow> string \<Rightarrow> string"

definition timingSafeEqual :: "string \<Rightarrow> string \<Rightarrow> js_error + bool" where
  "timingSafeEqual a b = (if length a \<noteq> length b then Inl RangeError else Inr (a = b))"

record IHashResult =
  hash :: string
  salt :: string

text \<open>
  \<open>hash(data, salt = null)\<close>: \<open>salt || crypto.randomBytes(16).toString('hex')\<close> takes the
  random salt for \<open>null\<close> and for the empty string alike.
\<close>

definition hash_sm :: "pbkdf2 \<Rightarrow> string \<Rightarrow> string \<Rightarrow> string option \<Rightarrow> IHashResult" where
  "hash_sm pbkdf2Sync randomSalt data salt_arg =
     (let actualSalt = (case salt_arg of None \<Rightarrow> randomSalt
                        | Some s \<Rightarrow> if s = [] then randomSalt else s)
      in \<lparr>hash = pbkdf2Sync data actualSalt 100000 64 ''sha512'', salt = actualSalt\<rparr>)"

definition verifyHash :: "pbkdf2 \<Rightarrow> string \<Rightarrow> string \<Rightarrow> string \<Rightarrow> string \<Rightarrow> js_error + bool" where
  "verifyHash pbkdf2Sync randomSalt data hash_arg salt_arg =
     (let newHash = hash (hash_sm pbkdf2Sync randomSalt data (Some salt_arg))
      in timingSafeEqual hash_arg newHash)"

definition sign :: "hmac \<Rightarrow> (json \<Rightarrow> string) \<Rightarrow> json \<Rightarrow> string \<Rightarrow> string" where
  "sign createHmac stringify data secret = createHmac ''sha256'' secret (stringify data)"

definition verifySignature ::
    "hmac \<Rightarrow> (json \<Rightarrow> string) \<Rightarrow> json \<Rightarrow> string \<Rightarrow> string \<Rightarrow> js_error + bool" where
  "verifySignature createHmac stringify data signature secret =
     (let expectedSignature = sign createHmac stringify data secret
      in timingSafeEqual signature expectedSignature)"

section \<open>Client: the storage cipher (Frontend/src/utils/security.ts, encrypt and decrypt)\<close>

text \<open>
  The CryptoJS calls are parameters, each of which may throw:
  \<open>aesEncrypt data key\<close> stands for \<open>CryptoJS.AES.encrypt(data, key).toString()\<close>,
  \<open>aesDecrypt encryptedData key\<close> for \<open>CryptoJS.AES.decrypt(encryptedData, key)\<close> and
  \<open>toStringUtf8 bytes\<close> for \<open>bytes.toString(CryptoJS.enc.Utf8)\<close>. The \<open>catch\<close>
  blocks log and return their argument.
\<close>

definition encrypt ::
    "(string \<Rightarrow> string \<Rightarrow> js_error + string) \<Rightarrow> string \<Rightarrow> string \<Rightarrow> js_error + string" where
  "encrypt aesEncrypt ENCRYPTION_KEY data =
     try_catch (aesEncrypt data ENCRYPTION_KEY) (\<lambda>error. Inr data)"

definition decrypt ::
    "(string \<Rightarrow> string \<Rightarrow> js_error + 'b) \<Rightarrow> ('b \<Rightarrow> js_error + string) \<Rightarrow> string \<Rightarrow> string
     \<Rightarrow> js_error + string" where
  "decrypt aesDecrypt toStringUtf8 ENCRYPTION_KEY encryptedData =
     try_catch (case aesDecrypt encryptedData ENCRYPTION_KEY of
                  Inl e \<Rightarrow> Inl e
                | Inr bytes \<Rightarrow> toStringUtf8 bytes)
               (\<lambda>error. Inr encryptedData)"

section \<open>Client: the HTTP client and its interceptors (Frontend/src/services/api.ts)\<close>

text \<open>
  The request configuration carries the custom flag \<open>_retry\<close> and the
  \<open>Authorization\<close> header. The session storage holds the two tokens;
  \<open>onAuthPage\<close> is \<open>window.location.pathname.includes('/auth')\<close>.
\<close>

record RequestConfig =
  retry :: bool
  authorization :: "string option"

record ClientState =
  accessToken :: "string option"
  refreshToken :: "string option"
  onAuthPage :: bool

text \<open>
  What the outside world does at one transmission of a request: the clock, the answer of
  the client-side rate limiter, the answer of the network, and the answer that the
  refresh endpoint would give if the error handler of this transmission called it.
\<close>

datatype net_response = NoResponse | HttpResponse int "string option"

datatype refresh_outcome =
    RefreshRejected
  | RefreshNoData
  | RefreshTokens string "string option"

record attempt =
  att_now :: int
  att_allowed :: bool
  att_response :: net_response
  att_refresh :: refresh_outcome

text \<open>
  What the caller of \<open>apiClient\<close> gets: the promise is fulfilled with the response data
  (here its status and message), or rejected with an \<open>Error\<close>, with the refresh call's
  error, or with the object \<open>{message, status, data}\<close>.
\<close>

datatype rejection =
    ErrorObject string
  | RefreshError
  | ApiRejection string "int option"

datatype api_result = Fulfilled int "string option" | Rejected rejection

text \<open>The trace of what the client did, oldest first.\<close>

datatype event =
    Sent RequestConfig
  | RefreshCalled string
  | StorageCleared
  | Redirected

text \<open>
  \<open>isTokenExpired\<close> of utils/security.ts. Decoding the payload
  (\<open>JSON.parse(atob(token.split('.')[1]))\<close>) is the parameter \<open>decode\<close>: it fails
  (\<open>None\<close>, the \<open>catch\<close> returns true) or gives the \<open>exp\<close> claim, if the payload has
  one. Without \<open>exp\<close> the comparison is with \<open>NaN\<close> and is false.
\<close>

definition isTokenExpired :: "(string \<Rightarrow> int option option) \<Rightarrow> int \<Rightarrow> string \<Rightarrow> bool" where
  "isTokenExpired decode now token =
     (if token = [] then True
      else case decode token of
             None \<Rightarrow> True
           | Some None \<Rightarrow> False
           | Some (Some exp) \<Rightarrow> now \<ge> exp * 1000)"

text \<open>\<open>handleApiError\<close>, with the constants of \<open>HTTP_STATUS\<close> and \<open>MESSAGES.ERROR\<close>.\<close>

definition handleApiError :: "net_response \<Rightarrow> string" where
  "handleApiError response =
     (case response of
        NoResponse \<Rightarrow> ''Network error. Please check your connection.''
      | HttpResponse st msg \<Rightarrow>
          if st = 401 then ''You are not authorized to access this resource.''
          else if st = 404 then ''The requested resource was not found.''
          else if st = 400 then
            (case msg of Some m \<Rightarrow> if m = [] then ''Please check your input and try again.'' else m
             | None \<Rightarrow> ''Please check your input and try again.'')
          else if st = 500 then ''Server error. Please try again later.''
          else (case msg of Some m \<Rightarrow> if m = [] then ''An error occurred'' else m
                | None \<Rightarrow> ''An error occurred''))"

text \<open>
  The request interceptor: the rate limiter's answer, then the stored access token.
  It returns the configuration to send, or the \<open>Error\<close> it rejects with.
\<close>

definition requestInterceptor ::
    "(string \<Rightarrow> int option option) \<Rightarrow> attempt \<Rightarrow> RequestConfig \<Rightarrow> ClientState
     \<Rightarrow> (string + RequestConfig) \<times> ClientState \<times> event list" where
  "requestInterceptor decode att config st =
     (if \<not> att_allowed att then
        (Inl ''Too many requests. Please try again later.'', st, [])
      else case accessToken st of
        None \<Rightarrow> (Inr config, st, [])
      | Some token \<Rightarrow>
          if token = [] then (Inr config, st, [])
          else if isTokenExpired decode (att_now att) token then
            (Inl ''Token expired'', st\<lparr>accessToken := None\<rparr>, [Redirected])
          else (Inr (config\<lparr>authorization := Some (''Bearer '' @ token)\<rparr>), st, []))"

text \<open>
  The end of the response error handler, after the 401 branch: the 429 rejection, or
  the rejection with the message of \<open>handleApiError\<close>.
\<close>

definition rejectWith :: "net_response \<Rightarrow> api_result" where
  "rejectWith response =
     (case response of
        NoResponse \<Rightarrow> Rejected (ApiRejection (handleApiError response) None)
      | HttpResponse st msg \<Rightarrow>
          if st = 429 then Rejected (ApiRejection ''Too many requests. Please slow down.'' (Some 429))
          else Rejected (ApiRejection (handleApiError response) (Some st)))"

text \<open>
  \<open>apiClient(config)\<close> runs the request interceptor, sends the request, and hands the
  answer to the response interceptor: to its first function when \<open>validateStatus\<close>
  accepts the status, to its error handler \<open>onRejected\<close> otherwise, and also when no
  answer came or the request interceptor rejected. \<open>onRejected\<close> receives the failed
  request's configuration and the answer, where there is one. In its 401 branch it sets
  \<open>_retry\<close>, and if the stored refresh token is present and not expired it calls the
  refresh endpoint, stores the new tokens and returns \<open>apiClient(originalRequest)\<close>;
  an exception in that block clears the storage and rejects with it. The list holds what
  the world does at this transmission and at the later ones; the result is \<open>None\<close> when
  the list ends before the exchange does.
\<close>

fun apiClient ::
      "(int \<Rightarrow> bool) \<Rightarrow> (string \<Rightarrow> int option option) \<Rightarrow> RequestConfig \<Rightarrow> ClientState
       \<Rightarrow> attempt list \<Rightarrow> (api_result \<times> ClientState \<times> event list) option"
  and onRejected ::
      "(int \<Rightarrow> bool) \<Rightarrow> (string \<Rightarrow> int option option) \<Rightarrow> attempt \<Rightarrow> RequestConfig option
       \<Rightarrow> net_response \<Rightarrow> ClientState \<Rightarrow> attempt list
       \<Rightarrow> (api_result \<times> ClientState \<times> event list) option"
where
  "apiClient validateStatus decode config st [] = None"
| "apiClient validateStatus decode config st (att # later) =
     (case requestInterceptor decode att config st of
        (Inl e, st1, evs1) \<Rightarrow>
          map_option (\<lambda>(r, st2, evs2). (r, st2, evs1 @ evs2))
            (onRejected validateStatus decode att None NoResponse st1 later)
      | (Inr config1, st1, evs1) \<Rightarrow>
          (case att_response att of
             NoResponse \<Rightarrow>
               map_option (\<lambda>(r, st2, evs2). (r, st2, evs1 @ [Sent config1] @ evs2))
                 (onRejected validateStatus decode att (Some config1) NoResponse st1 later)
           | HttpResponse code msg \<Rightarrow>
               if validateStatus code then Some (Fulfilled code msg, st1, evs1 @ [Sent config1])
               else
                 map_option (\<lambda>(r, st2, evs2). (r, st2, evs1 @ [Sent config1] @ evs2))
                   (onRejected validateStatus decode att (Some config1)
                      (HttpResponse code msg) st1 later)))"
| "onRejected validateStatus decode att originalRequest response st later =
     (case (response, originalRequest) of
        (HttpResponse code msg, Some config) \<Rightarrow>
          if code = 401 \<and> \<not> retry config then
            (case refreshToken st of
               None \<Rightarrow> Some (rejectWith response, st, [])
             | Some token \<Rightarrow>
                 if token = [] \<or> isTokenExpired decode (att_now att) token then
                   Some (rejectWith response, st, [])
                 else
                   (case att_refresh att of
                      RefreshTokens newAccess newRefresh \<Rightarrow>
                        map_option (\<lambda>(r, st2, evs2). (r, st2, RefreshCalled token # evs2))
                          (apiClient validateStatus decode
                             (config\<lparr>retry := True, authorization := Some (''Bearer '' @ newAccess)\<rparr>)
                             (st\<lparr>accessToken := Some newAccess,
                                 refreshToken := (case newRefresh of
                                                    None \<Rightarrow> refreshToken st
                                                  | Some t \<Rightarrow> if t = [] then refreshToken st
                                                              else Some t)\<rparr>)
                             later)
                    | _ \<Rightarrow>
                        Some (Rejected RefreshError,
                              st\<lparr>accessToken := None, refreshToken := None\<rparr>,
                              [RefreshCalled token, StorageCleared]
                              @ (if onAuthPage st then [] else [Redirected]))))
          else Some (rejectWith response, st, [])
      | (HttpResponse code msg, None) \<Rightarrow>
          if code = 401
          then Some (Rejected (ErrorObject ''TypeError: cannot read _retry of undefined''), st, [])
          else Some (rejectWith response, st, [])
      | (NoResponse, _) \<Rightarrow> Some (rejectWith response, st, []))"

text \<open>
  The \<open>validateStatus\<close> that api.ts configures, and the default of axios, which the
  refresh call made with the plain \<open>axios\<close> object uses.
\<close>

definition validateStatus :: "int \<Rightarrow> bool" where
  "validateStatus code = (code < 500)"

definition axiosDefaultValidateStatus :: "int \<Rightarrow> bool" where
  "axiosDefaultValidateStatus code = (200 \<le> code \<and> code < 300)"

text \<open>Counting in a trace: the calls of the refresh endpoint, the transmissions.\<close>

fun is_refresh :: "event \<Rightarrow> bool" where
  "is_refresh (RefreshCalled t) = True"
| "is_refresh e = False"

fun is_sent :: "event \<Rightarrow> bool" where
  "is_sent (Sent c) = True"
| "is_sent e = False"

definition refreshes :: "event list \<Rightarrow> nat" where
  "refreshes evs = length (filter is_refresh evs)"

definition transmissions :: "event list \<Rightarrow> nat" where
  "transmissions evs = length (filter is_sent evs)"

text \<open>A stored session and a sequence of answers to evaluate the client on.\<close>

definition exampleSession :: ClientState where
  "exampleSession = \<lparr>accessToken = Some ''a1'', refreshToken = Some ''r1'', onAuthPage = False\<rparr>"

definition unauthorizedTwice :: "attempt list" where
  "unauthorizedTwice =
     [\<lparr>att_now = 1000, att_allowed = True, att_response = HttpResponse 401 None,
       att_refresh = RefreshTokens ''a2'' (Some ''r2'')\<rparr>,
      \<lparr>att_now = 1200, att_allowed = True, att_response = HttpResponse 401 None,
       att_refresh = RefreshTokens ''a3'' (Some ''r3'')\<rparr>,
      \<lparr>att_now = 1400, att_allowed = True, att_response = HttpResponse 200 None,
       att_refresh = RefreshTokens ''a4'' (Some ''r4'')\<rparr>]"

section \<open>Server: the input sanitizer (middlewares/apiSecurity.ts, sanitizeInput)\<close>

subsection \<open>The regular expressions of the sanitizer\<close>

text \<open>
  The constructs that the three patterns use. All three carry the flags \<open>g\<close> and
  \<open>i\<close>: a literal matches without regard to the case of ASCII letters. The characters
  of the model are bytes, so \<open>\s\<close> is the ASCII white space; the white space that
  JavaScript knows beyond ASCII is outside the model.
\<close>

datatype regex =
    Lit string
  | NotChr char
  | WordChar
  | SpaceChar
  | Seq regex regex
  | Star regex
  | Plus regex
  | NegLookahead regex
  | WordBoundary

definition isWordChar :: "char \<Rightarrow> bool" where
  "isWordChar c =
     (c \<in> set ''abcdefghijklmnopqrstuvwxyzABCDEFGHIJKLMNOPQRSTUVWXYZ0123456789_'')"

definition isSpaceChar :: "char \<Rightarrow> bool" where
  "isSpaceChar c = (c \<in> set [CHR '' '', CHR 0x09, CHR 0x0A, CHR 0x0B, CHR 0x0C, CHR 0x0D])"

text \<open>
  A position in the subject string: the character before it, if any, and the rest of
  the string. The matcher returns the positions at which a match of the expression can
  end, in the order in which a backtracking matcher tries them; the head of the list is
  the match that JavaScript reports.
\<close>

type_synonym position = "char option \<times> string"

definition isWordBefore :: "position \<Rightarrow> bool" where
  "isWordBefore p = (case fst p of None \<Rightarrow> False | Some c \<Rightarrow> isWordChar c)"

definition isWordAfter :: "position \<Rightarrow> bool" where
  "isWordAfter p = (case snd p of [] \<Rightarrow> False | c # cs \<Rightarrow> isWordChar c)"

definition matchChar :: "(char \<Rightarrow> bool) \<Rightarrow> position \<Rightarrow> position list" where
  "matchChar ok p = (case snd p of [] \<Rightarrow> [] | c # cs \<Rightarrow> if ok c then [(Some c, cs)] else [])"

fun matchLit :: "string \<Rightarrow> position \<Rightarrow> position list" where
  "matchLit [] p = [p]"
| "matchLit (l # ls) (prev, []) = []"
| "matchLit (l # ls) (prev, c # cs) =
     (if toLowerChar c = toLowerChar l then matchLit ls (Some c, cs) else [])"

text \<open>
  A greedy repetition tries one more round first and the empty continuation last; a
  round that consumes nothing is rejected, so the rounds are bounded by the length of
  the rest.
\<close>

fun repeat :: "(position \<Rightarrow> position list) \<Rightarrow> nat \<Rightarrow> position \<Rightarrow> position list" where
  "repeat step 0 p = [p]"
| "repeat step (Suc n) p =
     concat (map (repeat step n)
                 (filter (\<lambda>q. length (snd q) < length (snd p)) (step p))) @ [p]"

primrec rmatch :: "regex \<Rightarrow> position \<Rightarrow> position list" where
  "rmatch (Lit s) = (\<lambda>p. matchLit s p)"
| "rmatch (NotChr x) = (\<lambda>p. matchChar (\<lambda>c. c \<noteq> x) p)"
| "rmatch WordChar = (\<lambda>p. matchChar isWordChar p)"
| "rmatch SpaceChar = (\<lambda>p. matchChar isSpaceChar p)"
| "rmatch (Seq a b) = (\<lambda>p. concat (map (rmatch b) (rmatch a p)))"
| "rmatch (Star a) = (\<lambda>p. repeat (rmatch a) (length (snd p)) p)"
| "rmatch (Plus a) = (\<lambda>p. concat (map (\<lambda>q. repeat (rmatch a) (length (snd q)) q) (rmatch a p)))"
| "rmatch (NegLookahead a) = (\<lambda>p. if rmatch a p = [] then [p] else [])"
| "rmatch WordBoundary = (\<lambda>p. if isWordBefore p \<noteq> isWordAfter p then [p] else [])"

text \<open>
  \<open>s.replace(re, '')\<close> with the flag \<open>g\<close>: from left to right, the first match at the
  earliest position is removed and the search goes on behind it. An empty match removes
  nothing and the search moves one character on.
\<close>

fun replaceAll :: "regex \<Rightarrow> char option \<Rightarrow> string \<Rightarrow> string" where
  "replaceAll re prev [] = []"
| "replaceAll re prev (c # cs) =
     (case rmatch re (prev, c # cs) of
        [] \<Rightarrow> c # replaceAll re (Some c) cs
      | q # qs \<Rightarrow>
          if length (snd q) < length (c # cs) then replaceAll re (fst q) (snd q)
          else c # replaceAll re (Some c) cs)"

definition trim :: "string \<Rightarrow> string" where
  "trim s = rev (dropWhile isSpaceChar (rev (dropWhile isSpaceChar s)))"

text \<open>\<open>/<script\b[^<]*(?:(?!<\/script>)<[^<]*)*<\/script>/gi\<close>\<close>

definition scriptBlock :: regex where
  "scriptBlock =
     Seq (Lit ''<script'')
    (Seq WordBoundary
    (Seq (Star (NotChr CHR ''<''))
    (Seq (Star (Seq (NegLookahead (Lit ''</script>''))
               (Seq (Lit ''<'') (Star (NotChr CHR ''<'')))))
         (Lit ''</script>''))))"

text \<open>\<open>/javascript:/gi\<close>\<close>

definition javascriptScheme :: regex where
  "javascriptScheme = Lit ''javascript:''"

text \<open>\<open>/on\w+\s*=/gi\<close>\<close>

definition eventHandler :: regex where
  "eventHandler = Seq (Lit ''on'') (Seq (Plus WordChar) (Seq (Star SpaceChar) (Lit ''='')))"

text \<open>The chain applied to a string value: three replacements, then \<open>trim()\<close>.\<close>

definition sanitizeString :: "string \<Rightarrow> string" where
  "sanitizeString value =
     trim (replaceAll eventHandler None
            (replaceAll javascriptScheme None
              (replaceAll scriptBlock None value)))"

subsection \<open>The recursive sanitizer\<close>

text \<open>
  \<open>sanitized[key] = v\<close> on the fresh object: an ordinary key becomes an own property,
  new at the end of the enumeration order. The key \<open>__proto__\<close> does not: the
  assignment reaches the accessor that every object inherits from \<open>Object.prototype\<close>,
  which sets the prototype of \<open>sanitized\<close> when \<open>v\<close> is an object or null and does
  nothing otherwise; in neither case does \<open>sanitized\<close> get an own property. The model
  keeps the own properties only. (\<open>JSON.parse\<close>, which produces the request body, does
  create \<open>__proto__\<close> as an own property, and \<open>for ... in\<close> enumerates it.)
\<close>

definition assign :: "(string \<times> json) list \<Rightarrow> string \<Rightarrow> json \<Rightarrow> (string \<times> json) list" where
  "assign sanitized key v =
     (if key = ''__proto__'' then sanitized else AList.update key v sanitized)"

text \<open>
  \<open>sanitize\<close> returns everything that is not an object unchanged, a string as well.
  For an object it fills a fresh object in the order of \<open>for (const key in obj)\<close>, for an
  array a fresh array in the order of the indices. \<open>sanitizeValue\<close> is the body of the
  loop: the replacement chain for a string, the recursive call for whatever
  \<open>typeof\<close> calls an object (objects, arrays and \<open>null\<close>), the value itself otherwise.
\<close>

fun sanitize :: "json \<Rightarrow> json"
  and sanitizeProps :: "(string \<times> json) list \<Rightarrow> (string \<times> json) list \<Rightarrow> (string \<times> json) list"
  and sanitizeItems :: "json list \<Rightarrow> json list"
  and sanitizeValue :: "json \<Rightarrow> json"
where
  "sanitize (JObj props) = JObj (sanitizeProps props [])"
| "sanitize (JArr items) = JArr (sanitizeItems items)"
| "sanitize v = v"
| "sanitizeProps [] sanitized = sanitized"
| "sanitizeProps ((key, value) # rest) sanitized =
     sanitizeProps rest (assign sanitized key (sanitizeValue value))"
| "sanitizeItems [] = []"
| "sanitizeItems (value # rest) = sanitizeValue value # sanitizeItems rest"
| "sanitizeValue (JStr s) = JStr (sanitizeString s)"
| "sanitizeValue (JObj props) = sanitize (JObj props)"
| "sanitizeValue (JArr items) = sanitize (JArr items)"
| "sanitizeValue JNull = sanitize JNull"
| "sanitizeValue v = v"

text \<open>
  \<open>if (req.body) req.body = sanitize(req.body)\<close>, and the same for \<open>req.query\<close> and
  \<open>req.params\<close>: a missing or falsy value is left as it is.
\<close>

record Payload =
  body :: "json option"
  query :: "json option"
  params :: "json option"

definition sanitizePart :: "json option \<Rightarrow> json option" where
  "sanitizePart part =
     (case part of None \<Rightarrow> None | Some v \<Rightarrow> if truthy v then Some (sanitize v) else Some v)"

definition sanitizeInput :: "Payload \<Rightarrow> Payload" where
  "sanitizeInput req =
     (let req = req\<lparr>body := sanitizePart (body req)\<rparr>;
          req = req\<lparr>query := sanitizePart (query req)\<rparr>;
          req = req\<lparr>params := sanitizePart (params req)\<rparr>
      in req)"

text \<open>
  For the statement of shape preservation: a value with \<open>f\<close> applied to every string
  that is the value of a property or the element of an array, and nothing else changed;
  and the values in which every object has pairwise different keys, none of them
  \<open>__proto__\<close>.
\<close>

fun mapLeaves :: "(string \<Rightarrow> string) \<Rightarrow> json \<Rightarrow> json"
  and mapLeavesProps :: "(string \<Rightarrow> string) \<Rightarrow> (string \<times> json) list \<Rightarrow> (string \<times> json) list"
  and mapLeavesItems :: "(string \<Rightarrow> string) \<Rightarrow> json list \<Rightarrow> json list"
where
  "mapLeaves f (JStr s) = JStr (f s)"
| "mapLeaves f (JObj props) = JObj (mapLeavesProps f props)"
| "mapLeaves f (JArr items) = JArr (mapLeavesItems f items)"
| "mapLeaves f v = v"
| "mapLeavesProps f [] = []"
| "mapLeavesProps f ((key, value) # rest) = (key, mapLeaves f value) # mapLeavesProps f rest"
| "mapLeavesItems f [] = []"
| "mapLeavesItems f (value # rest) = mapLeaves f value # mapLeavesItems f rest"

fun plainKeys :: "json \<Rightarrow> bool"
  and plainKeysProps :: "(string \<times> json) list \<Rightarrow> bool"
  and plainKeysItems :: "json list \<Rightarrow> bool"
where
  "plainKeys (JObj props) =
     (distinct (map fst props) \<and> ''__proto__'' \<notin> set (map fst props) \<and> plainKeysProps props)"
| "plainKeys (JArr items) = plainKeysItems items"
| "plainKeys v = True"
| "plainKeysProps [] = True"
| "plainKeysProps ((key, value) # rest) = (plainKeys value \<and> plainKeysProps rest)"
| "plainKeysItems [] = True"
| "plainKeysItems (value # rest) = (plainKeys value \<and> plainKeysItems rest)"

text \<open>The shape of a value: its tree with every string emptied.\<close>

definition shape :: "json \<Rightarrow> json" where
  "shape v = mapLeaves (\<lambda>s. []) (case v of JStr s \<Rightarrow> JStr [] | _ \<Rightarrow> v)"

section \<open>Verified properties: the rate limiter\<close>

lemma within_limit_new: "within_limit (newRateLimiter m w)"
  by (simp add: within_limit_def newRateLimiter_def userRequests_def)

lemma same_records_refl: "same_records rl rl"
  by (simp add: same_records_def)

lemma filter_full_length:
  assumes "length xs \<le> length (filter P xs)"
  shows "filter P xs = xs"
proof -
  have "length (filter P xs) = length xs"
    using assms length_filter_le [of P xs] by simp
  then show ?thesis
    by (metis filter_True length_filter_less linorder_neq_iff)
qed

lemma denied_nothing_to_evict:
  assumes "within_limit rl"
      and "int (length (recentRequests now rl x)) \<ge> maxRequests rl"
  shows "recentRequests now rl x = userRequests rl x"
proof -
  have le: "int (length (userRequests rl x)) \<le> max 0 (maxRequests rl)"
    using assms(1) by (simp add: within_limit_def)
  show ?thesis
  proof (cases "0 \<le> maxRequests rl")
    case True
    with le assms(2) have "length (userRequests rl x) \<le> length (recentRequests now rl x)"
      by simp
    then show ?thesis
      unfolding recentRequests_def by (rule filter_full_length)
  next
    case False
    with le have "userRequests rl x = []" by simp
    then show ?thesis by (simp add: recentRequests_def)
  qed
qed

lemma isAllowed_within_limit:
  assumes "within_limit rl"
  shows "within_limit (snd (isAllowed now x rl))"
  using assms
  by (auto simp: within_limit_def isAllowed_def Let_def userRequests_def)

lemma isAllowed_refines_step:
  assumes "within_limit rl" and "same_records rl rs"
  shows "fst (isAllowed now x rl) = fst (isAllowed_amended now x rs)
         \<and> same_records (snd (isAllowed now x rl)) (snd (isAllowed_amended now x rs))"
proof -
  have rec: "recentRequests now rl x
             = filter (\<lambda>t. \<not> t \<le> now - timeWindow rs) (userRequests rs x)"
  proof -
    have "(now - t < timeWindow rl) = (\<not> t \<le> now - timeWindow rs)" for t
      using assms(2) by (auto simp: same_records_def)
    then show ?thesis
      using assms(2) by (simp add: recentRequests_def same_records_def)
  qed
  have m: "maxRequests rs = maxRequests rl" "timeWindow rs = timeWindow rl"
    using assms(2) by (simp_all add: same_records_def)
  show ?thesis
  proof (cases "int (length (recentRequests now rl x)) \<ge> maxRequests rl")
    case True
    then have "recentRequests now rl x = userRequests rl x"
      using assms(1) by (rule denied_nothing_to_evict [rotated])
    with True rec m assms(2) show ?thesis
      by (auto simp: isAllowed_def isAllowed_amended_def Let_def same_records_def userRequests_def)
  next
    case False
    with rec m assms(2) show ?thesis
      by (auto simp: isAllowed_def isAllowed_amended_def Let_def same_records_def userRequests_def)
  qed
qed

lemma isAllowed_calls_refine:
  assumes "within_limit rl" and "same_records rl rs"
  shows "fst (isAllowed_calls cs rl) = fst (isAllowed_amended_calls cs rs)
         \<and> same_records (snd (isAllowed_calls cs rl)) (snd (isAllowed_amended_calls cs rs))"
  using assms
proof (induction cs arbitrary: rl rs)
  case Nil
  then show ?case by simp
next
  case (Cons c cs)
  obtain now x where c: "c = (now, x)" by (cases c)
  have step: "fst (isAllowed now x rl) = fst (isAllowed_amended now x rs)"
             "same_records (snd (isAllowed now x rl)) (snd (isAllowed_amended now x rs))"
    using isAllowed_refines_step [OF Cons.prems] by simp_all
  have inv: "within_limit (snd (isAllowed now x rl))"
    using Cons.prems(1) by (rule isAllowed_within_limit)
  from Cons.IH [OF inv step(2)] step(1) show ?case
    by (simp add: c case_prod_beta)
qed

text \<open>
  C5, as stated, fails at the edge of the window. With \<open>maxRequests = 1\<close> and a window
  of 1000 ms, a call at time 0 is allowed, and so is a call at time 1000 by the code: it
  keeps the timestamps with \<open>now - timestamp < timeWindow\<close>, and the timestamp 0 is
  gone. By the words of the claim the timestamp 0 is not older than
  \<open>now - windowDurationMs = 0\<close>, it stays, and the second call is refused.
\<close>

theorem isAllowed_boundary_differs:
  "fst (isAllowed_calls [(0, ''x''), (1000, ''x'')] (newRateLimiter 1 1000)) = [True, True]
   \<and> fst (isAllowed_spec_calls [(0, ''x''), (1000, ''x'')] (newRateLimiter 1 1000))
       = [True, False]"
  by (simp add: isAllowed_def isAllowed_spec_def recentRequests_def userRequests_def
        newRateLimiter_def Let_def)

text \<open>
  C5, amended. \<open>isAllowed\<close> evicts the timestamps that are
  \<open>now - windowDurationMs\<close> or older (it keeps those with
  \<open>now - timestamp < timeWindow\<close>), then returns true and appends \<open>now\<close> exactly
  when fewer than \<open>maxRequests\<close> remain, and otherwise returns false without
  appending. From a new limiter and for every sequence of calls (each with the clock
  value it reads), the code gives the answers of this operation and leaves every
  identifier with the record it leaves. A single call, from any state, answers by the
  count of the retained timestamps and stores them with \<open>now\<close> at the end, or changes
  nothing. With \<open>maxRequests = 5\<close> and a window of 1000 ms, five calls within the
  window are allowed, the sixth is refused, and a call after the window has passed is
  allowed again.
\<close>

theorem isAllowed_evicts_then_counts:
  "fst (isAllowed_calls cs (newRateLimiter m w)) = fst (isAllowed_amended_calls cs (newRateLimiter m w))
   \<and> userRequests (snd (isAllowed_calls cs (newRateLimiter m w))) identifier
       = userRequests (snd (isAllowed_amended_calls cs (newRateLimiter m w))) identifier
   \<and> fst (isAllowed now x rl)
       = (int (length (filter (\<lambda>t. now - t < timeWindow rl) (userRequests rl x))) < maxRequests rl)
   \<and> snd (isAllowed now x rl)
       = (if fst (isAllowed now x rl)
          then rl\<lparr>requests := (requests rl)
                 (x \<mapsto> filter (\<lambda>t. now - t < timeWindow rl) (userRequests rl x) @ [now])\<rparr>
          else rl)
   \<and> fst (isAllowed_calls
           [(t0, x), (t0 + 200, x), (t0 + 400, x), (t0 + 600, x), (t0 + 800, x),
            (t0 + 900, x), (t0 + 1800, x)]
           (newRateLimiter 5 1000))
       = [True, True, True, True, True, False, True]"
proof (intro conjI)
  have r: "fst (isAllowed_calls cs (newRateLimiter m w)) = fst (isAllowed_amended_calls cs (newRateLimiter m w))
         \<and> same_records (snd (isAllowed_calls cs (newRateLimiter m w)))
                         (snd (isAllowed_amended_calls cs (newRateLimiter m w)))"
    by (rule isAllowed_calls_refine [OF within_limit_new same_records_refl])
  from r show "fst (isAllowed_calls cs (newRateLimiter m w))
               = fst (isAllowed_amended_calls cs (newRateLimiter m w))"
    by simp
  from r show "userRequests (snd (isAllowed_calls cs (newRateLimiter m w))) identifier
       = userRequests (snd (isAllowed_amended_calls cs (newRateLimiter m w))) identifier"
    by (simp add: same_records_def)
  show "fst (isAllowed now x rl)
     = (int (length (filter (\<lambda>t. now - t < timeWindow rl) (userRequests rl x))) < maxRequests rl)"
    by (simp add: isAllowed_def recentRequests_def Let_def)
  show "snd (isAllowed now x rl)
     = (if fst (isAllowed now x rl)
        then rl\<lparr>requests := (requests rl)
               (x \<mapsto> filter (\<lambda>t. now - t < timeWindow rl) (userRequests rl x) @ [now])\<rparr>
        else rl)"
    by (simp add: isAllowed_def recentRequests_def Let_def)
  show "fst (isAllowed_calls
           [(t0, x), (t0 + 200, x), (t0 + 400, x), (t0 + 600, x), (t0 + 800, x),
            (t0 + 900, x), (t0 + 1800, x)]
           (newRateLimiter 5 1000))
     = [True, True, True, True, True, False, True]"
    by (simp add: isAllowed_def recentRequests_def userRequests_def newRateLimiter_def Let_def)
qed

section \<open>Verified properties: the middleware chain\<close>

lemma app_chain_layers:
  "app_chain env =
     [(None, RequestIdMiddleware), (None, SecurityHeaders), (None, Cors), (None, RequestLogger)]
     @ (if env = ''development'' then [(None, Morgan)] else [])
     @ [(Some ''/api/'', GeneralLimiter), (None, ExpressJson), (None, ExpressUrlencoded),
        (None, CookieParser), (None, MongoSanitizeConfig), (None, HppConfig),
        (None, SanitizeInput), (None, DetectSuspiciousActivity), (None, ValidateUserAgent),
        (None, ValidateContentType), (None, CompressionConfig)]"
  by (simp add: app_chain_def use_def)

lemma runChain_initial_segment:
  "\<exists>rest. ms = fst (runChain behave ms) @ rest"
proof (induction ms)
  case Nil
  then show ?case by simp
next
  case (Cons m ms)
  then show ?case
    by (cases "behave m") (auto split: prod.splits)
qed

lemma runChain_all_next: "fst (runChain (\<lambda>m. Next) ms) = ms"
  by (induction ms) (auto split: prod.splits)

text \<open>
  C1, as stated, fails: a request to an API path in production meets fourteen
  middlewares, not the nine of the list. After anomaly detection comes the User-Agent
  check, which can end the chain itself, and only then content-type gating.
\<close>

theorem chain_not_only_listed_stages:
  "stagesFor (\<lambda>mount path. startsWith path mount) ''production'' ''/api/auth/login''
     \<noteq> spec_chain True
   \<and> ValidateUserAgent \<in> set (stagesFor (\<lambda>mount path. startsWith path mount)
                                  ''production'' ''/api/auth/login'')
   \<and> \<not> listed ValidateUserAgent"
  by (simp add: stagesFor_def app_chain_layers spec_chain_def listed_def)

text \<open>
  C1, amended. In every environment and for every request path the chain is the one
  below: the nine listed stages in the listed order, the rate limiter exactly on the
  paths under its mount path \<open>/api/\<close>, compression last, and between them the stages
  the list leaves out: request logging (and \<open>morgan\<close> in development) after CORS,
  URL-encoded and cookie parsing after JSON parsing, Mongo-operator and
  parameter-pollution sanitization before input sanitization, and the User-Agent check
  between anomaly detection and content-type gating. Whatever the middlewares do with a
  request, those that run are an initial segment of this list, and the whole list when
  each of them calls \<open>next()\<close>.
\<close>

theorem chain_fixed_order:
  "stagesFor mounted env path =
     [RequestIdMiddleware, SecurityHeaders, Cors, RequestLogger]
     @ (if env = ''development'' then [Morgan] else [])
     @ (if mounted ''/api/'' path then [GeneralLimiter] else [])
     @ [ExpressJson, ExpressUrlencoded, CookieParser, MongoSanitizeConfig, HppConfig,
        SanitizeInput, DetectSuspiciousActivity, ValidateUserAgent, ValidateContentType,
        CompressionConfig]
   \<and> filter listed (stagesFor mounted env path) = spec_chain (mounted ''/api/'' path)
   \<and> last (stagesFor mounted env path) = CompressionConfig
   \<and> (\<exists>rest. stagesFor mounted env path
                 = fst (runChain behave (stagesFor mounted env path)) @ rest)
   \<and> fst (runChain (\<lambda>m. Next) (stagesFor mounted env path)) = stagesFor mounted env path"
proof -
  have "stagesFor mounted env path =
     [RequestIdMiddleware, SecurityHeaders, Cors, RequestLogger]
     @ (if env = ''development'' then [Morgan] else [])
     @ (if mounted ''/api/'' path then [GeneralLimiter] else [])
     @ [ExpressJson, ExpressUrlencoded, CookieParser, MongoSanitizeConfig, HppConfig,
        SanitizeInput, DetectSuspiciousActivity, ValidateUserAgent, ValidateContentType,
        CompressionConfig]"
    by (simp add: stagesFor_def app_chain_layers)
  moreover have "filter listed (stagesFor mounted env path) = spec_chain (mounted ''/api/'' path)"
    by (simp add: stagesFor_def app_chain_layers spec_chain_def listed_def)
  moreover have "last (stagesFor mounted env path) = CompressionConfig"
    by (simp add: stagesFor_def app_chain_layers)
  moreover note runChain_initial_segment [of "stagesFor mounted env path" behave]
    runChain_all_next [of "stagesFor mounted env path"]
  ultimately show ?thesis
    by blast
qed

section \<open>Verified properties: the terminal error handler\<close>


text \<open>
  Where the handler itself throws: with a declared status outside the codes that Node
  accepts, and with a validation failure one of whose entries is \<open>null\<close>. The handler
  then sends no JSON body.
\<close>

lemma errorHandler_invalid_status_throws:
  assumes "message err \<noteq> ''Not allowed by CORS''" and "status err \<noteq> Some 429"
      and "name err \<notin> {''ValidationError'', ''JsonWebTokenError'', ''TokenExpiredError''}"
      and "type err \<noteq> Some ''entity.too.large''"
      and "\<not> validStatusCode (orNum (statusCode err) (orNum (status err) 500))"
  shows "errorHandler env err req = Inl RangeError"
  using assms by (simp add: errorHandler_def Let_def)

lemma errorHandler_null_entry_throws:
  assumes "message err \<noteq> ''Not allowed by CORS''" and "status err \<noteq> Some 429"
      and "name err = ''ValidationError''" and "JNull \<in> set (errorEntries (errors err))"
  shows "errorHandler env err req = Inl TypeError"
  using assms by (simp add: errorHandler_def errorMessages_def)



section \<open>Verified properties: the request id in error responses\<close>

text \<open>
  The terminal handler, the 404 handler, the content-type gate and the missing
  User-Agent answer all carry the request id of the request.
\<close>

lemma errorHandler_requestId:
  "errorHandler env err req = Inr res \<Longrightarrow>
     field res ''requestId'' = map_option JStr (req_id req)"
  by (cases "req_id req"; cases "stack err")
     (auto simp: errorHandler_def respond_def jsonBody_def List.map_filter_simps field_def
           Let_def split: if_splits sum.splits)

lemma notFoundHandler_requestId:
  "field (notFoundHandler req) ''requestId'' = map_option JStr (req_id req)"
  by (cases "req_id req")
     (simp_all add: notFoundHandler_def respond_def jsonBody_def List.map_filter_simps field_def)

lemma validateContentType_requestId:
  "validateContentType allowedTypes req = Respond res \<Longrightarrow>
     field res ''requestId'' = map_option JStr (req_id req)"
  by (cases "req_id req")
     (auto simp: validateContentType_def respond_def jsonBody_def List.map_filter_simps field_def
           split: if_splits option.splits)

lemma validateUserAgent_missing_requestId:
  "userAgent req = None \<or> userAgent req = Some [] \<Longrightarrow>
     validateUserAgent req
       = Respond (respond 400 [(''success'', Some (JBool False)),
                               (''message'', Some (JStr ''User-Agent header is required'')),
                               (''requestId'', map_option JStr (req_id req))])"
  by (auto simp: validateUserAgent_def)

text \<open>
  C3. The claim fails on the code: the answer of \<open>validateUserAgent\<close> to a blocked
  agent is an error response (403) that ends the chain, and its body has the properties
  \<open>success\<close> and \<open>message\<close> only. The request below carries the request id \<open>7f3c\<close>
  and the User-Agent of a scanner on the block list.
\<close>

theorem validateUserAgent_blocked_omits_requestId:
  "validateUserAgent (exampleRequest\<lparr>userAgent := Some ''sqlmap/1.7.2#stable''\<rparr>)
     = Respond \<lparr>res_status = 403,
                res_json = [(''success'', JBool False), (''message'', JStr ''Access denied'')]\<rparr>
   \<and> req_id (exampleRequest\<lparr>userAgent := Some ''sqlmap/1.7.2#stable''\<rparr>) = Some ''7f3c''
   \<and> (\<exists>res. validateUserAgent (exampleRequest\<lparr>userAgent := Some ''sqlmap/1.7.2#stable''\<rparr>)
               = Respond res
            \<and> field res ''requestId'' = None)"
  by (simp add: validateUserAgent_def exampleRequest_def maliciousAgents_def toLowerCase_def
        toLowerChar_def respond_def jsonBody_def List.map_filter_simps field_def)

section \<open>Verified properties: verifyHash and verifySignature\<close>

lemma verifyHash_roundtrip:
  "salt_arg \<noteq> [] \<Longrightarrow>
     verifyHash pbkdf2Sync r2 data (hash (hash_sm pbkdf2Sync r1 data (Some salt_arg))) salt_arg
       = Inr True"
  by (simp add: verifyHash_def hash_sm_def timingSafeEqual_def)

lemma verifyHash_same_length_mutation:
  "salt_arg \<noteq> [] \<Longrightarrow> h \<noteq> hash (hash_sm pbkdf2Sync r1 data (Some salt_arg)) \<Longrightarrow>
   length h = length (hash (hash_sm pbkdf2Sync r1 data (Some salt_arg))) \<Longrightarrow>
     verifyHash pbkdf2Sync r2 data h salt_arg = Inr False"
  by (simp add: verifyHash_def hash_sm_def timingSafeEqual_def)

lemma verifyHash_empty_salt:
  "verifyHash pbkdf2Sync r2 data (hash (hash_sm pbkdf2Sync r1 data (Some []))) []
     = timingSafeEqual (pbkdf2Sync data r1 100000 64 ''sha512'')
                       (pbkdf2Sync data r2 100000 64 ''sha512'')"
  by (simp add: verifyHash_def hash_sm_def)

text \<open>
  C8. The claim fails on the code for a mutation that changes the length of the stored
  hash: with one character appended, for any data, any key-derivation function and the
  salt \<open>s4lt\<close>, \<open>verifyHash\<close> throws the \<open>RangeError\<close> of \<open>timingSafeEqual\<close>
  where the claim has it return false.
\<close>

theorem verifyHash_longer_hash_raises:
  "verifyHash pbkdf2Sync r2 data
      (hash (hash_sm pbkdf2Sync r1 data (Some ''s4lt'')) @ ''0'') ''s4lt''
     = Inl RangeError"
  by (simp add: verifyHash_def hash_sm_def timingSafeEqual_def)

text \<open>
  C9. Whenever the candidate hash differs in byte length from the hash that
  \<open>verifyHash\<close> recomputes, and whenever the signature differs in byte length from the
  one \<open>verifySignature\<close> recomputes, the function throws the \<open>RangeError\<close> of the
  constant-time comparison; it does not return false.
\<close>

theorem verify_length_mismatch_raises:
  "(length hash_arg
      \<noteq> length (hash (hash_sm pbkdf2Sync randomSalt data (Some salt_arg)))
     \<longrightarrow> verifyHash pbkdf2Sync randomSalt data hash_arg salt_arg = Inl RangeError)
   \<and> (length signature \<noteq> length (sign createHmac stringify payload secret)
     \<longrightarrow> verifySignature createHmac stringify payload signature secret = Inl RangeError)"
  by (simp add: verifyHash_def verifySignature_def timingSafeEqual_def)

theorem verify_length_mismatch_raises_witness:
  "length ''00ff''
      \<noteq> length (hash (hash_sm (\<lambda>data salt iterations keylen digest. replicate (2 * keylen) CHR ''a'')
                          ''5a17'' ''secret'' (Some ''s4lt'')))
   \<and> verifyHash (\<lambda>data salt iterations keylen digest. replicate (2 * keylen) CHR ''a'')
        ''5a17'' ''secret'' ''00ff'' ''s4lt'' = Inl RangeError
   \<and> length ''00ff''
      \<noteq> length (sign (\<lambda>algorithm secret payload. replicate 64 CHR ''b'') (\<lambda>j. ''{}'')
                      (JObj []) ''key'')
   \<and> verifySignature (\<lambda>algorithm secret payload. replicate 64 CHR ''b'') (\<lambda>j. ''{}'')
        (JObj []) ''00ff'' ''key'' = Inl RangeError"
proof -
  have h1: "length ''00ff''
      \<noteq> length (hash (hash_sm (\<lambda>data salt iterations keylen digest. replicate (2 * keylen) CHR ''a'')
                          ''5a17'' ''secret'' (Some ''s4lt'')))"
    by (simp add: hash_sm_def)
  have h2: "length ''00ff''
      \<noteq> length (sign (\<lambda>algorithm secret payload. replicate 64 CHR ''b'') (\<lambda>j. ''{}'')
                      (JObj []) ''key'')"
    by (simp add: sign_def)
  from verify_length_mismatch_raises
         [of "''00ff''" "\<lambda>data salt iterations keylen digest. replicate (2 * keylen) CHR ''a''"
             "''5a17''" "''secret''" "''s4lt''" "''00ff''"
             "\<lambda>algorithm secret payload. replicate 64 CHR ''b''" "\<lambda>j. ''{}''" "JObj []" "''key''"]
       h1 h2
  show ?thesis by blast
qed

section \<open>Verified properties: the client-side storage cipher\<close>

text \<open>
  C10. Whatever the CryptoJS calls do, \<open>encrypt\<close> and \<open>decrypt\<close> return a string and
  never throw. When the AES decryption or the UTF-8 decoding throws, \<open>decrypt\<close> returns
  its argument, the encrypted string, unchanged; when the AES encryption throws,
  \<open>encrypt\<close> returns its argument, the plaintext, unchanged.
\<close>

theorem storage_cipher_fails_open:
  "(\<exists>s. encrypt aesEncrypt key data = Inr s)
   \<and> (\<exists>s. decrypt aesDecrypt toStringUtf8 key encryptedData = Inr s)
   \<and> (aesDecrypt encryptedData key = Inl e
        \<longrightarrow> decrypt aesDecrypt toStringUtf8 key encryptedData = Inr encryptedData)
   \<and> (aesDecrypt encryptedData key = Inr bytes \<and> toStringUtf8 bytes = Inl e
        \<longrightarrow> decrypt aesDecrypt toStringUtf8 key encryptedData = Inr encryptedData)
   \<and> (aesEncrypt data key = Inl e \<longrightarrow> encrypt aesEncrypt key data = Inr data)"
  by (auto simp: encrypt_def decrypt_def try_catch_def split: sum.splits)

theorem storage_cipher_fails_open_witness:
  "decrypt (\<lambda>c k. Inl (CryptoError ''bad ciphertext'') :: js_error + string) Inr
        ''k3y'' ''U2FsdGVkX1'' = Inr ''U2FsdGVkX1''
   \<and> decrypt (\<lambda>c k. Inr c) (\<lambda>b. Inl (CryptoError ''Malformed UTF-8 data''))
        ''k3y'' ''U2FsdGVkX1'' = Inr ''U2FsdGVkX1''
   \<and> encrypt (\<lambda>d k. Inl (CryptoError ''no key'')) ''k3y'' ''access-token'' = Inr ''access-token''"
  using storage_cipher_fails_open
          [of "\<lambda>d k. Inl (CryptoError ''no key'')" "''k3y''" "''access-token''"
              "\<lambda>c k. Inl (CryptoError ''bad ciphertext'') :: js_error + string" Inr
              "''U2FsdGVkX1''" "CryptoError ''bad ciphertext''" "''U2FsdGVkX1''"]
        storage_cipher_fails_open
          [of "\<lambda>d k. Inl (CryptoError ''no key'')" "''k3y''" "''access-token''"
              "\<lambda>c k. Inr c" "\<lambda>b. Inl (CryptoError ''Malformed UTF-8 data'')"
              "''U2FsdGVkX1''" "CryptoError ''Malformed UTF-8 data''" "''U2FsdGVkX1''"]
        storage_cipher_fails_open
          [of "\<lambda>d k. Inl (CryptoError ''no key'')" "''k3y''" "''access-token''"
              "\<lambda>c k. Inr c" Inr "''U2FsdGVkX1''" "CryptoError ''no key''" "''U2FsdGVkX1''"]
  by simp

section \<open>Verified properties: the client's refresh-and-replay\<close>

lemma requestInterceptor_retry:
  "requestInterceptor decode att config st = (Inr config1, st1, evs1) \<Longrightarrow> retry config1 = retry config"
  by (auto simp: requestInterceptor_def split: if_splits option.splits)

lemma requestInterceptor_events:
  "requestInterceptor decode att config st = (r, st1, evs1) \<Longrightarrow> refreshes evs1 = 0 \<and> transmissions evs1 = 0"
  by (auto simp: requestInterceptor_def refreshes_def transmissions_def split: if_splits option.splits)

lemma onRejected_retried:
  "retry config \<Longrightarrow>
     onRejected vs decode att (Some config) response st later = Some (rejectWith response, st, [])"
  by (cases response) simp_all

lemma refreshes_append: "refreshes (xs @ ys) = refreshes xs + refreshes ys"
  by (simp add: refreshes_def)

lemma transmissions_append: "transmissions (xs @ ys) = transmissions xs + transmissions ys"
  by (simp add: transmissions_def)

lemma apiClient_retried:
  assumes "retry config"
      and "apiClient vs decode config st env = Some (r, st', evs)"
  shows "refreshes evs = 0 \<and> transmissions evs \<le> 1"
proof (cases env)
  case Nil
  with assms(2) show ?thesis by simp
next
  case (Cons att later)
  obtain q st1 evs1 where ri: "requestInterceptor decode att config st = (q, st1, evs1)"
    by (cases "requestInterceptor decode att config st")
  have e1: "refreshes evs1 = 0" "transmissions evs1 = 0"
    using requestInterceptor_events [OF ri] by simp_all
  show ?thesis
  proof (cases q)
    case (Inl e)
    with assms(2) Cons ri e1 show ?thesis
      by (auto simp: refreshes_def transmissions_def)
  next
    case (Inr config1)
    with ri have "retry config1" using requestInterceptor_retry assms(1) by metis
    with assms(2) Cons ri e1 Inr show ?thesis
      by (auto simp: onRejected_retried refreshes_def transmissions_def
           simp del: onRejected.simps split: net_response.splits if_splits)
  qed
qed

lemma apiClient_retried_total:
  assumes "retry config"
  shows "\<exists>res. apiClient vs decode config st (att # later) = Some res"
proof -
  obtain q st1 evs1 where ri: "requestInterceptor decode att config st = (q, st1, evs1)"
    by (cases "requestInterceptor decode att config st")
  show ?thesis
  proof (cases q)
    case (Inl e)
    with ri show ?thesis by simp
  next
    case (Inr config1)
    with ri have "retry config1" using requestInterceptor_retry assms(1) by metis
    with ri Inr show ?thesis
      by (auto simp: onRejected_retried simp del: onRejected.simps split: net_response.splits)
  qed
qed

lemma onRejected_bounds:
  assumes "onRejected vs decode att orig response st later = Some (r, st', evs)"
  shows "refreshes evs \<le> 1 \<and> transmissions evs \<le> 1"
proof -
  have replay: "refreshes evs2 = 0 \<and> transmissions evs2 \<le> 1"
    if "apiClient vs decode (c\<lparr>retry := True, authorization := a\<rparr>) s later = Some (r2, st2, evs2)"
    for c a s r2 st2 evs2
    using apiClient_retried [OF _ that] by simp
  from assms show ?thesis
    by (auto simp: refreshes_def transmissions_def dest!: replay
          split: net_response.splits option.splits if_splits refresh_outcome.splits)
qed

lemma onRejected_total:
  assumes "later \<noteq> []"
  shows "\<exists>res. onRejected vs decode att orig response st later = Some res"
proof -
  obtain a l where l: "later = a # l" using assms by (cases later) auto
  have replay: "\<exists>res. apiClient vs decode (c\<lparr>retry := True, authorization := x\<rparr>) s (a # l) = Some res"
    for c x s
    by (rule apiClient_retried_total) simp
  show ?thesis
    unfolding l
    using replay
    by (auto simp del: apiClient.simps split: net_response.splits option.splits refresh_outcome.splits)
qed

lemma apiClient_bounds:
  assumes "apiClient vs decode config st env = Some (r, st', evs)"
  shows "refreshes evs \<le> 1 \<and> transmissions evs \<le> 2"
proof (cases env)
  case Nil
  with assms show ?thesis by simp
next
  case (Cons att later)
  obtain q st1 evs1 where ri: "requestInterceptor decode att config st = (q, st1, evs1)"
    by (cases "requestInterceptor decode att config st")
  have e1: "refreshes evs1 = 0" "transmissions evs1 = 0"
    using requestInterceptor_events [OF ri] by simp_all
  have sent: "refreshes (Sent c # b) = refreshes b"
             "transmissions (Sent c # b) = Suc (transmissions b)"
             "refreshes [] = 0" "transmissions [] = 0" for c b
    by (simp_all add: refreshes_def transmissions_def)
  from assms Cons ri e1 show ?thesis
    by (auto simp: refreshes_append transmissions_append sent
          simp del: onRejected.simps dest!: onRejected_bounds
          split: sum.splits net_response.splits if_splits)
qed

lemma apiClient_total:
  assumes "2 \<le> length env"
  shows "\<exists>res. apiClient vs decode config st env = Some res"
proof -
  from assms obtain att later where env1: "env = att # later"
    by (cases env) auto
  with assms have env2: "later \<noteq> []"
    by auto
  note env = env1 env2
  obtain q st1 evs1 where ri: "requestInterceptor decode att config st = (q, st1, evs1)"
    by (cases "requestInterceptor decode att config st")
  show ?thesis
    unfolding env(1)
    using ri onRejected_total [OF env(2), of vs decode att]
    by (auto simp del: onRejected.simps split: sum.splits net_response.splits)
qed

lemma apiClient_configured_validateStatus_401:
  "att_allowed att \<Longrightarrow> accessToken st = None \<Longrightarrow> att_response att = HttpResponse 401 msg \<Longrightarrow>
     apiClient validateStatus decode config st (att # later)
       = Some (Fulfilled 401 msg, st, [Sent config])"
  by (simp add: requestInterceptor_def validateStatus_def)

text \<open>
  C4. Whatever the network, the rate limiter, the clock and the refresh endpoint do, and
  whatever statuses \<open>validateStatus\<close> lets through, one call of the client calls the
  refresh endpoint at most once and transmits the request at most twice, the original
  and one replay; a call whose request is already marked \<open>_retry\<close> does not refresh
  and transmits at most once. The call ends whenever the world is described for two
  transmissions. The error handler, given a 401 for a request marked \<open>_retry\<close>,
  rejects with status 401 and does nothing else: no refresh, no replay, no change of
  the storage.
\<close>

theorem interceptor_retries_at_most_once:
  "(apiClient vs decode config st env = Some (r, st', evs)
      \<longrightarrow> refreshes evs \<le> 1 \<and> transmissions evs \<le> 2
          \<and> (retry config \<longrightarrow> refreshes evs = 0 \<and> transmissions evs \<le> 1))
   \<and> (2 \<le> length env \<longrightarrow> (\<exists>res. apiClient vs decode config st env = Some res))
   \<and> (retry config \<longrightarrow>
         onRejected vs decode att (Some config) (HttpResponse 401 msg) st later
           = Some (Rejected (ApiRejection ''You are not authorized to access this resource.''
                               (Some 401)), st, []))"
proof (intro conjI impI)
  assume a: "apiClient vs decode config st env = Some (r, st', evs)"
  from apiClient_bounds [OF a] show "refreshes evs \<le> 1" and "transmissions evs \<le> 2"
    by simp_all
  assume "retry config"
  from apiClient_retried [OF this a] show "refreshes evs = 0" and "transmissions evs \<le> 1"
    by simp_all
next
  assume "2 \<le> length env"
  then show "\<exists>res. apiClient vs decode config st env = Some res"
    by (rule apiClient_total)
next
  assume "retry config"
  then show "onRejected vs decode att (Some config) (HttpResponse 401 msg) st later
           = Some (Rejected (ApiRejection ''You are not authorized to access this resource.''
                               (Some 401)), st, [])"
    by (simp add: onRejected_retried rejectWith_def handleApiError_def del: onRejected.simps)
qed

lemma unauthorizedTwice_run:
  "apiClient axiosDefaultValidateStatus (\<lambda>t. Some None)
       \<lparr>retry = False, authorization = None\<rparr> exampleSession unauthorizedTwice
     = Some (Rejected (ApiRejection ''You are not authorized to access this resource.'' (Some 401)),
             \<lparr>accessToken = Some ''a2'', refreshToken = Some ''r2'', onAuthPage = False\<rparr>,
             [Sent \<lparr>retry = False, authorization = Some ''Bearer a1''\<rparr>,
              RefreshCalled ''r1'',
              Sent \<lparr>retry = True, authorization = Some ''Bearer a2''\<rparr>])"
  by (simp add: exampleSession_def unauthorizedTwice_def axiosDefaultValidateStatus_def
        requestInterceptor_def isTokenExpired_def rejectWith_def handleApiError_def)

theorem interceptor_retries_at_most_once_witness:
  "apiClient axiosDefaultValidateStatus (\<lambda>t. Some None)
       \<lparr>retry = False, authorization = None\<rparr> exampleSession unauthorizedTwice
     = Some (Rejected (ApiRejection ''You are not authorized to access this resource.'' (Some 401)),
             \<lparr>accessToken = Some ''a2'', refreshToken = Some ''r2'', onAuthPage = False\<rparr>,
             [Sent \<lparr>retry = False, authorization = Some ''Bearer a1''\<rparr>,
              RefreshCalled ''r1'',
              Sent \<lparr>retry = True, authorization = Some ''Bearer a2''\<rparr>])
   \<and> refreshes [Sent \<lparr>retry = False, authorization = Some ''Bearer a1''\<rparr>,
                  RefreshCalled ''r1'',
                  Sent \<lparr>retry = True, authorization = Some ''Bearer a2''\<rparr>] \<le> 1
   \<and> transmissions [Sent \<lparr>retry = False, authorization = Some ''Bearer a1''\<rparr>,
                  RefreshCalled ''r1'',
                  Sent \<lparr>retry = True, authorization = Some ''Bearer a2''\<rparr>] \<le> 2
   \<and> 2 \<le> length unauthorizedTwice
   \<and> retry \<lparr>retry = True, authorization = Some ''Bearer a2''\<rparr>
   \<and> onRejected axiosDefaultValidateStatus (\<lambda>t. Some None) (unauthorizedTwice ! 1)
         (Some \<lparr>retry = True, authorization = Some ''Bearer a2''\<rparr>) (HttpResponse 401 None)
         exampleSession [unauthorizedTwice ! 2]
       = Some (Rejected (ApiRejection ''You are not authorized to access this resource.''
                           (Some 401)), exampleSession, [])"
proof -
  have len: "2 \<le> length unauthorizedTwice"
    by (simp add: unauthorizedTwice_def)
  have flag: "retry \<lparr>retry = True, authorization = Some ''Bearer a2''\<rparr>"
    by simp
  from interceptor_retries_at_most_once
         [of axiosDefaultValidateStatus "\<lambda>t. Some None" "\<lparr>retry = False, authorization = None\<rparr>"
             exampleSession unauthorizedTwice _ _ _ "unauthorizedTwice ! 1" None
             "[unauthorizedTwice ! 2]"]
       interceptor_retries_at_most_once
         [of axiosDefaultValidateStatus "\<lambda>t. Some None"
             "\<lparr>retry = True, authorization = Some ''Bearer a2''\<rparr>"
             exampleSession unauthorizedTwice _ _ _ "unauthorizedTwice ! 1" None
             "[unauthorizedTwice ! 2]"]
       unauthorizedTwice_run len flag
  show ?thesis
    by (simp del: apiClient.simps onRejected.simps)
qed

section \<open>Verified properties: the input sanitizer\<close>

text \<open>
  On the values in which no object has a key \<open>__proto__\<close> (and keys do not repeat, as in
  every JavaScript object), the sanitizer changes the strings that are property values
  or array elements, by the replacement chain, and nothing else.
\<close>

lemma update_fresh: "k \<notin> set (map fst al) \<Longrightarrow> AList.update k v al = al @ [(k, v)]"
  by (induction al) auto

lemma sanitize_mapLeaves_all:
  "(plainKeys v \<longrightarrow> sanitize v = (case v of JStr s \<Rightarrow> v | _ \<Rightarrow> mapLeaves sanitizeString v))"
  "(plainKeysProps props \<and> distinct (map fst props) \<and> ''__proto__'' \<notin> set (map fst props)
      \<and> set (map fst props) \<inter> set (map fst acc) = {}
     \<longrightarrow> sanitizeProps props acc = acc @ mapLeavesProps sanitizeString props)"
  "(plainKeysItems items \<longrightarrow> sanitizeItems items = mapLeavesItems sanitizeString items)"
  "(plainKeys w \<longrightarrow> sanitizeValue w = mapLeaves sanitizeString w)"
proof (induction v and props acc and items and w
       rule: sanitize_sanitizeProps_sanitizeItems_sanitizeValue.induct)
  case (5 key "value" rest sanitized)
  show ?case
  proof (intro impI, elim conjE)
    assume a: "plainKeysProps ((key, value) # rest)" "distinct (map fst ((key, value) # rest))"
      "''__proto__'' \<notin> set (map fst ((key, value) # rest))"
      "set (map fst ((key, value) # rest)) \<inter> set (map fst sanitized) = {}"
    then have fresh: "key \<notin> set (map fst sanitized)" and np: "key \<noteq> ''__proto__''"
      by auto
    have as: "assign sanitized key (sanitizeValue value) = sanitized @ [(key, sanitizeValue value)]"
      using np by (simp add: assign_def update_fresh [OF fresh])
    have v: "sanitizeValue value = mapLeaves sanitizeString value"
      using 5(1) a(1) by simp
    have rest: "sanitizeProps rest (sanitized @ [(key, sanitizeValue value)])
            = (sanitized @ [(key, sanitizeValue value)]) @ mapLeavesProps sanitizeString rest"
      using 5(2) a unfolding as by auto
    have "sanitizeProps ((key, value) # rest) sanitized
            = sanitizeProps rest (sanitized @ [(key, sanitizeValue value)])"
      by (simp only: sanitizeProps.simps as)
    also note rest
    finally show "sanitizeProps ((key, value) # rest) sanitized
            = sanitized @ mapLeavesProps sanitizeString ((key, value) # rest)"
      by (simp add: v)
  qed
qed auto

lemma sanitize_mapLeaves:
  "plainKeys v \<Longrightarrow> sanitize v = (case v of JStr s \<Rightarrow> v | _ \<Rightarrow> mapLeaves sanitizeString v)"
  using sanitize_mapLeaves_all(1) by blast

lemma mapLeaves_twice:
  "mapLeaves g (mapLeaves f v) = mapLeaves g v"
  "mapLeavesProps g (mapLeavesProps f props) = mapLeavesProps g props"
  "mapLeavesItems g (mapLeavesItems f items) = mapLeavesItems g items"
  if "\<And>s. g (f s) = g s"
  using that
  by (induction f v and f props and f items rule: mapLeaves_mapLeavesProps_mapLeavesItems.induct)
     auto

lemma sanitize_preserves_shape:
  assumes "plainKeys v"
  shows "shape (sanitize v) = shape v"
proof (cases v)
  case (JStr s)
  then show ?thesis by simp
next
  case (JObj props)
  with assms have "sanitize v = mapLeaves sanitizeString v"
    using sanitize_mapLeaves [of v] by simp
  with JObj show ?thesis
    by (simp add: shape_def mapLeaves_twice(2))
next
  case (JArr items)
  with assms have "sanitize v = mapLeaves sanitizeString v"
    using sanitize_mapLeaves [of v] by simp
  with JArr show ?thesis
    by (simp add: shape_def mapLeaves_twice(3))
qed simp_all

lemma sanitize_example:
  "sanitize (JObj [(''a'', JStr ''<script>alert(1)</script>hi''),
                   (''b'', JObj [(''c'', JStr ''ok'')])])
     = JObj [(''a'', JStr ''hi''), (''b'', JObj [(''c'', JStr ''ok'')])]"
  by code_simp

text \<open>
  C6. The claim fails on the code for a body with the key \<open>__proto__\<close>: the sanitized
  object has lost that key, so the key set and the shape of the tree are not preserved.
  (In JavaScript the assignment has moreover set the prototype of the sanitized object
  to the value sent under \<open>__proto__\<close>.)
\<close>

theorem sanitize_drops_proto_key:
  "sanitize (JObj [(''__proto__'', JObj [(''role'', JStr ''admin'')]), (''name'', JStr ''Ann'')])
     = JObj [(''name'', JStr ''Ann'')]
   \<and> shape (sanitize (JObj [(''__proto__'', JObj [(''role'', JStr ''admin'')]),
                            (''name'', JStr ''Ann'')]))
     \<noteq> shape (JObj [(''__proto__'', JObj [(''role'', JStr ''admin'')]), (''name'', JStr ''Ann'')])"
  by code_simp

end
